theory Spec2Isabelle
  imports Main "HOL-Library.Sublist" "HOL-Library.Word"
begin

section \<open>Python values and the operations the handler applies to them\<close>

text \<open>
  \<^verbatim>\<open>json.loads\<close> returns \<^verbatim>\<open>None\<close>, a bool, an int, a float, a str, a list or a dict
  with str keys. The handler never looks inside a float, which is kept as its 64-bit
  pattern. A str is its UTF-8 bytes: the handler only compares it with ASCII literals and
  searches it for ASCII literals, and both give the same answer on bytes as on code points.
  A dict is an association list in insertion order, read with \<open>map_of\<close>.
\<close>

datatype json =
    JNull
  | JBool bool
  | JInt int
  | JFloat "64 word"
  | JStr string
  | JList "json list"
  | JDict "(string \<times> json) list"

text \<open>
  The exceptions that can reach the \<^verbatim>\<open>try\<close> blocks of \<^verbatim>\<open>handle_connection\<close>:
  what \<^verbatim>\<open>json.loads\<close> raises, what the operations on a value of the wrong type raise, and
  the \<^verbatim>\<open>KeyError\<close> of \<^verbatim>\<open>set.remove\<close> and of \<^verbatim>\<open>data[key]\<close>.
\<close>

datatype exn =
    JSONDecodeError
  | UnicodeDecodeError
  | RecursionError
  | TypeError
  | AttributeError
  | KeyError

text \<open>\<^verbatim>\<open>key in data\<close> for a str \<^verbatim>\<open>key\<close>: a key of a dict, an element of a list, a substring
  of a str; any other value is not a container.\<close>

fun py_in :: "string \<Rightarrow> json \<Rightarrow> exn + bool" where
  "py_in key (JDict kvs) = Inr (key \<in> set (map fst kvs))"
| "py_in key (JList xs) = Inr (JStr key \<in> set xs)"
| "py_in key (JStr s) = Inr (sublist key s)"
| "py_in key JNull = Inl TypeError"
| "py_in key (JBool b) = Inl TypeError"
| "py_in key (JInt i) = Inl TypeError"
| "py_in key (JFloat f) = Inl TypeError"

text \<open>\<^verbatim>\<open>data[key]\<close> for a str \<^verbatim>\<open>key\<close>: a list and a str take integer indices only, the
  other values are not subscriptable.\<close>

fun py_getitem :: "json \<Rightarrow> string \<Rightarrow> exn + json" where
  "py_getitem (JDict kvs) key =
     (case map_of kvs key of None \<Rightarrow> Inl KeyError | Some v \<Rightarrow> Inr v)"
| "py_getitem (JList xs) key = Inl TypeError"
| "py_getitem (JStr s) key = Inl TypeError"
| "py_getitem JNull key = Inl TypeError"
| "py_getitem (JBool b) key = Inl TypeError"
| "py_getitem (JInt i) key = Inl TypeError"
| "py_getitem (JFloat f) key = Inl TypeError"

text \<open>\<^verbatim>\<open>d.get(key, default)\<close>: only a dict has the method.\<close>

fun py_get :: "json \<Rightarrow> string \<Rightarrow> json \<Rightarrow> exn + json" where
  "py_get (JDict kvs) key dflt =
     Inr (case map_of kvs key of None \<Rightarrow> dflt | Some v \<Rightarrow> v)"
| "py_get (JList xs) key dflt = Inl AttributeError"
| "py_get (JStr s) key dflt = Inl AttributeError"
| "py_get JNull key dflt = Inl AttributeError"
| "py_get (JBool b) key dflt = Inl AttributeError"
| "py_get (JInt i) key dflt = Inl AttributeError"
| "py_get (JFloat f) key dflt = Inl AttributeError"

text \<open>The elements a \<^verbatim>\<open>for\<close> loop takes from a value: the elements of a list, the keys of
  a dict, the one-character strings of a str; any other value is not iterable.\<close>

fun py_iter :: "json \<Rightarrow> exn + json list" where
  "py_iter (JList xs) = Inr xs"
| "py_iter (JDict kvs) = Inr (map (\<lambda>kv. JStr (fst kv)) kvs)"
| "py_iter (JStr s) = Inr (map (\<lambda>c. JStr [c]) s)"
| "py_iter JNull = Inl TypeError"
| "py_iter (JBool b) = Inl TypeError"
| "py_iter (JInt i) = Inl TypeError"
| "py_iter (JFloat f) = Inl TypeError"

section \<open>The server\<close>

text \<open>
  The frames written with \<^verbatim>\<open>websocket.send(json.dumps(...))\<close>, by shape:
  \<^verbatim>\<open>{"status": s}\<close>, \<^verbatim>\<open>{"status": s, "message": m}\<close>, \<^verbatim>\<open>{"text": t, "audio": a}\<close>,
  \<^verbatim>\<open>{"error": m}\<close> with a literal message, and \<^verbatim>\<open>{"error": str(e)}\<close> for a caught
  exception \<^verbatim>\<open>e\<close>.
\<close>

datatype reply =
    Status string
  | StatusMessage string string
  | TextAudio string string
  | ErrorMessage string
  | ErrorStr exn

text \<open>
  \<^verbatim>\<open>main\<close> creates one \<^verbatim>\<open>RAGServer\<close> and hands its bound method
  \<^verbatim>\<open>handle_connection\<close> to \<^verbatim>\<open>websockets.serve\<close>, so every connection runs on the same
  object. Its two attributes are \<open>connected_clients\<close> and \<open>pdf_data\<close> (\<^verbatim>\<open>None\<close> is
  \<open>JNull\<close>). \<open>sent\<close> records the frames written to the sockets, oldest first, each with
  the connection it was written to. The transport is modelled while it is open: a send
  appends to \<open>sent\<close>.
\<close>

record 'c world =
  connected_clients :: "'c set"
  pdf_data :: json
  sent :: "('c \<times> reply) list"

definition init :: "'c world" where
  "init = \<lparr>connected_clients = {}, pdf_data = JNull, sent = []\<rparr>"

definition send :: "'c \<Rightarrow> reply \<Rightarrow> 'c world \<Rightarrow> 'c world" where
  "send websocket r w = w\<lparr>sent := sent w @ [(websocket, r)]\<rparr>"

text \<open>The frames written to one connection.\<close>

definition wire :: "'c \<Rightarrow> 'c world \<Rightarrow> reply list" where
  "wire websocket w = map snd (filter (\<lambda>p. fst p = websocket) (sent w))"

definition process_audio :: "json \<Rightarrow> string" where
  "process_audio audio_data =
     ''I received your audio input. This is a placeholder response.''"

text \<open>
  The body of the \<^verbatim>\<open>for chunk in media_chunks\<close> loop. The result is the world after the
  body and the exception that left it, if any.
\<close>

definition process_chunk :: "'c \<Rightarrow> json \<Rightarrow> 'c world \<Rightarrow> 'c world \<times> exn option" where
  "process_chunk websocket chunk w =
     (case py_get chunk ''mime_type'' JNull of
        Inl e \<Rightarrow> (w, Some e)
      | Inr mime_type \<Rightarrow>
          (case py_get chunk ''data'' JNull of
             Inl e \<Rightarrow> (w, Some e)
           | Inr chunk_data \<Rightarrow>
               if mime_type = JStr ''application/pdf'' then
                 (send websocket
                    (StatusMessage ''pdf_received'' ''PDF has been processed successfully'')
                    (w\<lparr>pdf_data := chunk_data\<rparr>), None)
               else if mime_type = JStr ''audio/pcm'' then
                 (send websocket
                    (TextAudio (process_audio chunk_data) (process_audio chunk_data)) w, None)
               else (w, None)))"

fun chunk_loop :: "'c \<Rightarrow> json list \<Rightarrow> 'c world \<Rightarrow> 'c world \<times> exn option" where
  "chunk_loop websocket [] w = (w, None)"
| "chunk_loop websocket (chunk # chunks) w =
     (case process_chunk websocket chunk w of
        (w', Some e) \<Rightarrow> (w', Some e)
      | (w', None) \<Rightarrow> chunk_loop websocket chunks w')"

definition handle_message :: "'c \<Rightarrow> json \<Rightarrow> 'c world \<Rightarrow> 'c world \<times> exn option" where
  "handle_message websocket data w =
     (case py_in ''setup'' data of
        Inl e \<Rightarrow> (w, Some e)
      | Inr True \<Rightarrow> (send websocket (Status ''setup_complete'') w, None)
      | Inr False \<Rightarrow>
          (case py_in ''realtime_input'' data of
             Inl e \<Rightarrow> (w, Some e)
           | Inr False \<Rightarrow> (w, None)
           | Inr True \<Rightarrow>
               (case py_getitem data ''realtime_input'' of
                  Inl e \<Rightarrow> (w, Some e)
                | Inr input_data \<Rightarrow>
                    (case py_get input_data ''media_chunks'' (JList []) of
                       Inl e \<Rightarrow> (w, Some e)
                     | Inr media_chunks \<Rightarrow>
                         (case py_iter media_chunks of
                            Inl e \<Rightarrow> (w, Some e)
                          | Inr chunks \<Rightarrow> chunk_loop websocket chunks w)))))"

text \<open>
  The two \<^verbatim>\<open>except\<close> clauses around one message, in the source's order.
\<close>

definition on_exception :: "'c \<Rightarrow> exn \<Rightarrow> 'c world \<Rightarrow> 'c world" where
  "on_exception websocket e w =
     (if e = JSONDecodeError then send websocket (ErrorMessage ''Invalid JSON format'') w
      else send websocket (ErrorStr e) w)"

text \<open>
  The body of \<^verbatim>\<open>async for message in websocket\<close>. A message is given by what
  \<^verbatim>\<open>json.loads\<close> does on it: \<open>Inl e\<close> when it raises \<open>e\<close>, \<open>Inr data\<close> when it
  returns \<open>data\<close>.
\<close>

type_synonym message = "exn + json"

definition on_message :: "'c \<Rightarrow> message \<Rightarrow> 'c world \<Rightarrow> 'c world" where
  "on_message websocket message w =
     (case message of
        Inl e \<Rightarrow> on_exception websocket e w
      | Inr data \<Rightarrow>
          (case handle_message websocket data w of
             (w', None) \<Rightarrow> w'
           | (w', Some e) \<Rightarrow> on_exception websocket e w'))"

fun message_loop :: "'c \<Rightarrow> message list \<Rightarrow> 'c world \<Rightarrow> 'c world" where
  "message_loop websocket [] w = w"
| "message_loop websocket (message # messages) w =
     message_loop websocket messages (on_message websocket message w)"

text \<open>\<^verbatim>\<open>self.connected_clients.remove(websocket)\<close>: \<^verbatim>\<open>set.remove\<close> raises
  \<^verbatim>\<open>KeyError\<close> when the element is not in the set.\<close>

definition clients_remove :: "'c \<Rightarrow> 'c world \<Rightarrow> 'c world \<times> exn option" where
  "clients_remove websocket w =
     (if websocket \<in> connected_clients w
      then (w\<lparr>connected_clients := connected_clients w - {websocket}\<rparr>, None)
      else (w, Some KeyError))"

text \<open>\<^verbatim>\<open>self.connected_clients.add(websocket)\<close>, the first statement of
  \<^verbatim>\<open>handle_connection\<close>.\<close>

definition clients_add :: "'c \<Rightarrow> 'c world \<Rightarrow> 'c world" where
  "clients_add websocket w = w\<lparr>connected_clients := insert websocket (connected_clients w)\<rparr>"

text \<open>
  \<^verbatim>\<open>handle_connection\<close> is not one step. It adds its connection, suspends in
  \<^verbatim>\<open>async for\<close> until the next message arrives, and removes the connection in
  \<^verbatim>\<open>finally\<close>; while it is suspended, the handlers of the other connections run on the
  same server object. What the server does is therefore a sequence of events, each a step
  of one handler: a connection is accepted, a message of a connection is handled, the
  handler of a connection reaches \<^verbatim>\<open>finally\<close>. An exception of \<^verbatim>\<open>remove\<close> ends that
  handler only, and the world is as the failed \<^verbatim>\<open>remove\<close> left it. The steps inside one
  message touch the document and the wire, never the client set.
\<close>

datatype 'c event = Connect 'c | Receive 'c message | Close 'c

fun on_event :: "'c event \<Rightarrow> 'c world \<Rightarrow> 'c world \<times> exn option" where
  "on_event (Connect websocket) w = (clients_add websocket w, None)"
| "on_event (Receive websocket message) w = (on_message websocket message w, None)"
| "on_event (Close websocket) w = clients_remove websocket w"

fun run :: "'c event list \<Rightarrow> 'c world \<Rightarrow> 'c world" where
  "run [] w = w"
| "run (ev # evs) w = run evs (fst (on_event ev w))"

section \<open>Notions used to state the properties\<close>

text \<open>
  The document that the handler of a connection works with. \<^verbatim>\<open>handle_message\<close> reads and
  writes it as \<^verbatim>\<open>self.pdf_data\<close>, and \<^verbatim>\<open>self\<close> is the one server object whichever
  connection the message came from.
\<close>

definition session_document :: "'c \<Rightarrow> 'c world \<Rightarrow> json" where
  "session_document websocket w = pdf_data w"

text \<open>
  The frame \<^verbatim>\<open>{"realtime_input": {"media_chunks": chunks}}\<close>.
\<close>

definition realtime_input_frame :: "json list \<Rightarrow> json" where
  "realtime_input_frame chunks =
     JDict [(''realtime_input'', JDict [(''media_chunks'', JList chunks)])]"

text \<open>
  What the loop body writes for one chunk taken alone, from the initial state.
\<close>

definition chunk_replies :: "'c \<Rightarrow> json \<Rightarrow> ('c \<times> reply) list" where
  "chunk_replies websocket chunk = sent (fst (process_chunk websocket chunk init))"

text \<open>
  The chunks on which \<^verbatim>\<open>chunk.get\<close> exists: Python dicts. On every other JSON value
  the attribute lookup raises \<^verbatim>\<open>AttributeError\<close>.
\<close>

fun is_mapping :: "json \<Rightarrow> bool" where
  "is_mapping (JDict kvs) = True"
| "is_mapping _ = False"

text \<open>
  Base 64 decoding (RFC 4648, standard alphabet, padding optional), the decoding the
  specification speaks of for the \<^verbatim>\<open>data\<close> field. The source imports \<^verbatim>\<open>base64\<close> and never
  calls it; the function is here only to say what the stored value is compared with.
  Bytes are \<open>char\<close>s. \<open>None\<close> is a character outside the alphabet or a dangling sextet.
\<close>

definition b64_alphabet :: string where
  "b64_alphabet = ''ABCDEFGHIJKLMNOPQRSTUVWXYZabcdefghijklmnopqrstuvwxyz0123456789+/''"

fun index_of :: "'a \<Rightarrow> 'a list \<Rightarrow> nat option" where
  "index_of x [] = None"
| "index_of x (y # ys) = (if x = y then Some 0 else map_option Suc (index_of x ys))"

fun b64_sextets :: "string \<Rightarrow> nat list option" where
  "b64_sextets [] = Some []"
| "b64_sextets (c # cs) =
     (case index_of c b64_alphabet of
        None \<Rightarrow> None
      | Some v \<Rightarrow> map_option ((#) v) (b64_sextets cs))"

fun b64_bytes :: "nat list \<Rightarrow> string option" where
  "b64_bytes [] = Some []"
| "b64_bytes [a, b] = Some [char_of (a * 4 + b div 16)]"
| "b64_bytes [a, b, c] =
     Some [char_of (a * 4 + b div 16), char_of (b mod 16 * 16 + c div 4)]"
| "b64_bytes (a # b # c # d # rest) =
     map_option
       ((@) [char_of (a * 4 + b div 16), char_of (b mod 16 * 16 + c div 4),
             char_of (c mod 4 * 64 + d)])
       (b64_bytes rest)"
| "b64_bytes [a] = None"

definition spec_b64decode :: "string \<Rightarrow> string option" where
  "spec_b64decode s =
     (case b64_sextets (takeWhile (\<lambda>c. c \<noteq> CHR ''='') s) of
        None \<Rightarrow> None
      | Some vs \<Rightarrow> b64_bytes vs)"

section \<open>Facts about the model\<close>

lemma send_fields [simp]:
  "connected_clients (send websocket r w) = connected_clients w"
  "pdf_data (send websocket r w) = pdf_data w"
  "sent (send websocket r w) = sent w @ [(websocket, r)]"
  by (simp_all add: send_def)

lemma process_chunk_dict:
  "process_chunk websocket (JDict kvs) w =
     (let mime_type = (case map_of kvs ''mime_type'' of None \<Rightarrow> JNull | Some v \<Rightarrow> v);
          chunk_data = (case map_of kvs ''data'' of None \<Rightarrow> JNull | Some v \<Rightarrow> v)
      in if mime_type = JStr ''application/pdf'' then
           (send websocket
              (StatusMessage ''pdf_received'' ''PDF has been processed successfully'')
              (w\<lparr>pdf_data := chunk_data\<rparr>), None)
         else if mime_type = JStr ''audio/pcm'' then
           (send websocket
              (TextAudio (process_audio chunk_data) (process_audio chunk_data)) w, None)
         else (w, None))"
  by (simp add: process_chunk_def Let_def)

lemma process_chunk_dict_returns: "snd (process_chunk websocket (JDict kvs) w) = None"
  by (simp add: process_chunk_dict Let_def)

lemma process_chunk_dict_sent:
  "sent (fst (process_chunk websocket (JDict kvs) w)) =
     sent w @ chunk_replies websocket (JDict kvs)"
  by (simp add: process_chunk_dict chunk_replies_def Let_def init_def)

lemma map_of_key: "map_of kvs key = Some v \<Longrightarrow> key \<in> fst ` set kvs"
  by (metis domI dom_map_of_conv_image_fst)

lemma map_of_no_key: "key \<notin> fst ` set kvs \<Longrightarrow> map_of kvs key = None"
  by (simp add: map_of_eq_None_iff)

text \<open>
  No step of a connection touches the client set between \<^verbatim>\<open>add\<close> and \<^verbatim>\<open>remove\<close>.
\<close>

lemma process_chunk_clients:
  "connected_clients (fst (process_chunk websocket chunk w)) = connected_clients w"
  by (cases chunk) (simp_all add: process_chunk_def)

lemma chunk_loop_clients:
  "connected_clients (fst (chunk_loop websocket chunks w)) = connected_clients w"
proof (induction chunks arbitrary: w)
  case Nil
  then show ?case by simp
next
  case (Cons chunk chunks)
  obtain w' r where step: "process_chunk websocket chunk w = (w', r)"
    by (cases "process_chunk websocket chunk w")
  have "connected_clients w' = connected_clients w"
    using process_chunk_clients [of websocket chunk w] step by simp
  then show ?case
    using Cons.IH [of w'] step by (cases r) simp_all
qed

lemma handle_message_clients:
  "connected_clients (fst (handle_message websocket data w)) = connected_clients w"
  by (simp add: handle_message_def chunk_loop_clients split: sum.splits bool.splits)

lemma on_exception_clients:
  "connected_clients (on_exception websocket e w) = connected_clients w"
  by (simp add: on_exception_def)

lemma on_message_clients:
  "connected_clients (on_message websocket message w) = connected_clients w"
proof (cases message)
  case (Inl e)
  then show ?thesis by (simp add: on_message_def on_exception_clients)
next
  case (Inr data)
  obtain w' r where step: "handle_message websocket data w = (w', r)"
    by (cases "handle_message websocket data w")
  have "connected_clients w' = connected_clients w"
    using handle_message_clients [of websocket data w] step by simp
  then show ?thesis
    using Inr step by (cases r) (simp_all add: on_message_def on_exception_clients)
qed

lemma message_loop_clients:
  "connected_clients (message_loop websocket messages w) = connected_clients w"
  by (induction messages arbitrary: w) (simp_all add: on_message_clients)

text \<open>
  Both loops run their input front to back: a list split in two is the first part, then
  the second part from where the first left the world, unless an exception ended the first.
\<close>

lemma message_loop_append:
  "message_loop websocket (xs @ ys) w = message_loop websocket ys (message_loop websocket xs w)"
  by (induction xs arbitrary: w) simp_all

lemma chunk_loop_append:
  "chunk_loop websocket (xs @ ys) w =
     (case chunk_loop websocket xs w of
        (w', Some e) \<Rightarrow> (w', Some e)
      | (w', None) \<Rightarrow> chunk_loop websocket ys w')"
  by (induction xs arbitrary: w) (simp_all split: prod.splits option.splits)

lemma handle_message_chunks:
  assumes "''setup'' \<notin> fst ` set outer"
    and "map_of outer ''realtime_input'' = Some (JDict inner)"
    and "py_get (JDict inner) ''media_chunks'' (JList []) = Inr (JList chunks)"
  shows "handle_message websocket (JDict outer) w = chunk_loop websocket chunks w"
proof -
  have "''realtime_input'' \<in> fst ` set outer"
    using assms(2) by (rule map_of_key)
  then show ?thesis
    using assms by (simp add: handle_message_def)
qed

lemma handle_message_frame:
  "handle_message websocket (realtime_input_frame chunks) w = chunk_loop websocket chunks w"
  by (simp add: handle_message_def realtime_input_frame_def)

lemma process_chunk_not_mapping:
  "\<not> is_mapping chunk \<Longrightarrow> process_chunk websocket chunk w = (w, Some AttributeError)"
  by (cases chunk) (simp_all add: process_chunk_def)

lemma chunk_replies_le_1: "length (chunk_replies websocket chunk) \<le> 1"
  by (cases chunk) (simp_all add: chunk_replies_def process_chunk_def init_def)

text \<open>
  The chunk loop writes the replies of the chunks before the first one that is not a
  mapping, in order, and raises \<^verbatim>\<open>AttributeError\<close> at that one.
\<close>

lemma chunk_loop_replies:
  "sent (fst (chunk_loop websocket chunks w)) =
     sent w @ concat (map (chunk_replies websocket) (takeWhile is_mapping chunks))
   \<and> snd (chunk_loop websocket chunks w) =
       (if list_all is_mapping chunks then None else Some AttributeError)"
proof (induction chunks arbitrary: w)
  case Nil
  then show ?case by simp
next
  case (Cons chunk chunks)
  show ?case
  proof (cases "is_mapping chunk")
    case True
    then obtain kvs where chunk: "chunk = JDict kvs"
      by (cases chunk) simp_all
    obtain w' where step: "process_chunk websocket (JDict kvs) w = (w', None)"
      using process_chunk_dict_returns [of websocket kvs w]
      by (cases "process_chunk websocket (JDict kvs) w") simp
    have "sent w' = sent w @ chunk_replies websocket (JDict kvs)"
      using process_chunk_dict_sent [of websocket kvs w] step by simp
    then show ?thesis
      using Cons.IH [of w'] step chunk by simp
  next
    case False
    then show ?thesis
      by (simp add: process_chunk_not_mapping)
  qed
qed

text \<open>
  A connection stays in the client set through every event but its own
  \<^verbatim>\<open>remove\<close>.
\<close>

lemma run_keeps_member:
  "websocket \<in> connected_clients w \<Longrightarrow> Close websocket \<notin> set evs
   \<Longrightarrow> websocket \<in> connected_clients (run evs w)"
proof (induction evs arbitrary: w)
  case Nil
  then show ?case by simp
next
  case (Cons ev evs)
  have "websocket \<in> connected_clients (fst (on_event ev w))"
    using Cons.prems
    by (cases ev) (auto simp: clients_add_def clients_remove_def on_message_clients)
  then show ?case
    using Cons.IH Cons.prems by simp
qed

section \<open>Properties\<close>

subsection \<open>Session isolation\<close>

text \<open>
  As stated, C1 fails: with connections 1 and 2 open, a document chunk on connection 1
  changes the document that connection 2's handler works with, from \<^verbatim>\<open>None\<close> to the
  chunk's data.
\<close>

theorem document_shared_counterexample:
  "(1::nat) \<noteq> 2 \<and>
   session_document (2::nat)
     (fst (process_chunk 1
        (JDict [(''mime_type'', JStr ''application/pdf''), (''data'', JStr ''QUJD'')])
        \<lparr>connected_clients = {1, 2}, pdf_data = JNull, sent = []\<rparr>))
   \<noteq> session_document 2 \<lparr>connected_clients = {1, 2}, pdf_data = JNull, sent = []\<rparr>"
  by (simp add: process_chunk_def session_document_def)

text \<open>
  C1 (amended). There is one document, a field of the server shared by all connections.
  A document chunk (\<^verbatim>\<open>mime_type\<close> \<^verbatim>\<open>application/pdf\<close>) ingested on connection \<open>A\<close> sets
  the document that every connection works with, that of another connection \<open>B\<close>
  included, to the chunk's \<^verbatim>\<open>data\<close> (\<^verbatim>\<open>None\<close> when the key is absent). What stays apart
  per connection is the wire: nothing is written to \<open>B\<close>, and the client set is unchanged.
\<close>

theorem document_shared:
  assumes "map_of kvs ''mime_type'' = Some (JStr ''application/pdf'')"
    and "A \<noteq> B"
  shows "session_document B (fst (process_chunk A (JDict kvs) w)) =
           (case map_of kvs ''data'' of None \<Rightarrow> JNull | Some v \<Rightarrow> v)
         \<and> session_document B (fst (process_chunk A (JDict kvs) w)) =
           session_document A (fst (process_chunk A (JDict kvs) w))
         \<and> wire B (fst (process_chunk A (JDict kvs) w)) = wire B w
         \<and> connected_clients (fst (process_chunk A (JDict kvs) w)) = connected_clients w"
  using assms by (simp add: process_chunk_dict session_document_def wire_def)

theorem document_shared_witness:
  "map_of [(''mime_type'', JStr ''application/pdf''), (''data'', JStr ''QUJD'')] ''mime_type''
     = Some (JStr ''application/pdf'')
   \<and> (1::nat) \<noteq> 2
   \<and> session_document (2::nat)
       (fst (process_chunk 1
          (JDict [(''mime_type'', JStr ''application/pdf''), (''data'', JStr ''QUJD'')])
          \<lparr>connected_clients = {1, 2}, pdf_data = JNull, sent = [(2, Status ''setup_complete'')]\<rparr>))
     = JStr ''QUJD''
   \<and> wire (2::nat)
       (fst (process_chunk 1
          (JDict [(''mime_type'', JStr ''application/pdf''), (''data'', JStr ''QUJD'')])
          \<lparr>connected_clients = {1, 2}, pdf_data = JNull, sent = [(2, Status ''setup_complete'')]\<rparr>))
     = [Status ''setup_complete'']"
  using document_shared
    [of "[(''mime_type'', JStr ''application/pdf''), (''data'', JStr ''QUJD'')]" "1::nat" 2
        "\<lparr>connected_clients = {1, 2}, pdf_data = JNull, sent = [(2, Status ''setup_complete'')]\<rparr>"]
  by (simp add: wire_def)

subsection \<open>Document ingestion\<close>

text \<open>
  As stated, C2 fails: for the chunk with data \<^verbatim>\<open>"QUJD"\<close> the decoded bytes are \<^verbatim>\<open>ABC\<close>, and
  the document after the frame is the four-character text \<^verbatim>\<open>QUJD\<close>.
\<close>

theorem pdf_chunk_not_decoded_counterexample:
  "spec_b64decode ''QUJD'' = Some ''ABC''
   \<and> pdf_data (on_message (1::nat)
        (Inr (realtime_input_frame
           [JDict [(''mime_type'', JStr ''application/pdf''), (''data'', JStr ''QUJD'')]]))
        init) = JStr ''QUJD''
   \<and> pdf_data (on_message (1::nat)
        (Inr (realtime_input_frame
           [JDict [(''mime_type'', JStr ''application/pdf''), (''data'', JStr ''QUJD'')]]))
        init) \<noteq> JStr ''ABC''"
proof -
  have "spec_b64decode ''QUJD'' = Some ''ABC''"
    by code_simp
  then show ?thesis
    by (simp add: on_message_def handle_message_frame process_chunk_def)
qed

text \<open>
  C2 (amended). For a \<^verbatim>\<open>realtime_input\<close> frame with the single chunk
  \<^verbatim>\<open>{"mime_type": "application/pdf", "data": d}\<close>, processing sets the document to \<open>d\<close> as
  received, not decoded, and writes exactly the acknowledgement
  \<^verbatim>\<open>{"status": "pdf_received", "message": "PDF has been processed successfully"}\<close>.
\<close>

theorem pdf_chunk_stored_as_received:
  assumes "''setup'' \<notin> fst ` set outer"
    and "map_of outer ''realtime_input'' = Some (JDict inner)"
    and "map_of inner ''media_chunks'' = Some (JList [JDict kvs])"
    and "map_of kvs ''mime_type'' = Some (JStr ''application/pdf'')"
    and "map_of kvs ''data'' = Some chunk_data"
  shows "on_message websocket (Inr (JDict outer)) w =
           send websocket
             (StatusMessage ''pdf_received'' ''PDF has been processed successfully'')
             (w\<lparr>pdf_data := chunk_data\<rparr>)"
proof -
  have "''realtime_input'' \<in> fst ` set outer"
    using assms(2) by (rule map_of_key)
  then have "handle_message websocket (JDict outer) w = chunk_loop websocket [JDict kvs] w"
    using assms(1-3) by (simp add: handle_message_def)
  then show ?thesis
    using assms(4,5) by (simp add: on_message_def process_chunk_dict)
qed

theorem pdf_chunk_stored_as_received_witness:
  "on_message (1::nat)
     (Inr (JDict [(''realtime_input'', JDict [(''media_chunks'',
        JList [JDict [(''mime_type'', JStr ''application/pdf''), (''data'', JStr ''QUJD'')]])])]))
     init
   = \<lparr>connected_clients = {}, pdf_data = JStr ''QUJD'',
      sent = [(1, StatusMessage ''pdf_received'' ''PDF has been processed successfully'')]\<rparr>"
  using pdf_chunk_stored_as_received
    [of "[(''realtime_input'', JDict [(''media_chunks'',
            JList [JDict [(''mime_type'', JStr ''application/pdf''), (''data'', JStr ''QUJD'')]])])]"
        "[(''media_chunks'',
            JList [JDict [(''mime_type'', JStr ''application/pdf''), (''data'', JStr ''QUJD'')]])]"
        "[(''mime_type'', JStr ''application/pdf''), (''data'', JStr ''QUJD'')]"
        "JStr ''QUJD''" "1::nat" init]
  by (simp add: send_def init_def)

subsection \<open>The client set\<close>

text \<open>
  As stated, C3 fails: removing connection 1 from the client set \<open>{2}\<close> raises
  \<^verbatim>\<open>KeyError\<close>.
\<close>

theorem remove_non_member_counterexample:
  "(1::nat) \<notin> connected_clients \<lparr>connected_clients = {2}, pdf_data = JNull, sent = []\<rparr>
   \<and> clients_remove (1::nat) \<lparr>connected_clients = {2}, pdf_data = JNull, sent = []\<rparr>
     = (\<lparr>connected_clients = {2}, pdf_data = JNull, sent = []\<rparr>, Some KeyError)"
  by (simp add: clients_remove_def)

text \<open>
  C3 (amended). Removing a connection that is not in the client set raises
  \<^verbatim>\<open>KeyError\<close> and leaves the world as it was; removing a member takes exactly that
  connection out and raises nothing. A handler adds its connection first and removes it
  once, in \<^verbatim>\<open>finally\<close>. Whatever happens in between (the messages it handles, and
  other connections being accepted, handling messages and closing), the connection is
  still a member when its handler reaches \<^verbatim>\<open>finally\<close>, so that cleanup does not raise.
\<close>

theorem remove_non_member_raises:
  "(websocket \<notin> connected_clients w \<longrightarrow> clients_remove websocket w = (w, Some KeyError))
   \<and> (websocket \<in> connected_clients w \<longrightarrow>
        clients_remove websocket w =
          (w\<lparr>connected_clients := connected_clients w - {websocket}\<rparr>, None))
   \<and> (Close websocket \<notin> set between \<longrightarrow>
        websocket \<in> connected_clients (run between (clients_add websocket w))
        \<and> snd (clients_remove websocket (run between (clients_add websocket w))) = None)"
proof -
  have "websocket \<in> connected_clients (run between (clients_add websocket w))"
    if "Close websocket \<notin> set between"
    using that by (intro run_keeps_member) (simp_all add: clients_add_def)
  then show ?thesis
    by (simp add: clients_remove_def)
qed

theorem remove_non_member_raises_witness:
  "(1::nat) \<notin> connected_clients (init :: nat world)
   \<and> clients_remove (1::nat) init = (init, Some KeyError)
   \<and> Close (1::nat) \<notin> set [Connect 2, Receive 1 (Inl JSONDecodeError), Connect 3, Close 3]
   \<and> clients_remove (1::nat)
        (run [Connect 2, Receive 1 (Inl JSONDecodeError), Connect 3, Close 3] (clients_add 1 init))
     = (\<lparr>connected_clients = {2}, pdf_data = JNull,
         sent = [(1, ErrorMessage ''Invalid JSON format'')]\<rparr>, None)"
proof -
  have not_member: "(1::nat) \<notin> connected_clients (init :: nat world)"
    by (simp add: init_def)
  have no_close: "Close (1::nat) \<notin> set [Connect 2, Receive 1 (Inl JSONDecodeError), Connect 3, Close 3]"
    by simp
  note raises =
    remove_non_member_raises [of "1::nat" init, THEN conjunct1, THEN mp, OF not_member]
  note member =
    remove_non_member_raises
      [of "1::nat" init "[Connect 2, Receive 1 (Inl JSONDecodeError), Connect 3, Close 3]",
       THEN conjunct2, THEN conjunct2, THEN mp, OF no_close, THEN conjunct1]
  note removes =
    remove_non_member_raises
      [of "1::nat"
          "run [Connect 2, Receive 1 (Inl JSONDecodeError), Connect 3, Close 3] (clients_add 1 init)",
       THEN conjunct2, THEN conjunct1, THEN mp, OF member]
  have after: "clients_remove (1::nat)
        (run [Connect 2, Receive 1 (Inl JSONDecodeError), Connect 3, Close 3] (clients_add 1 init))
     = (\<lparr>connected_clients = {2}, pdf_data = JNull,
         sent = [(1, ErrorMessage ''Invalid JSON format'')]\<rparr>, None)"
    unfolding removes
    by (auto simp: clients_add_def clients_remove_def on_message_def on_exception_def
        send_def init_def)
  show ?thesis
    by (rule conjI [OF not_member conjI [OF raises conjI [OF no_close after]]])
qed

subsection \<open>Frames\<close>

text \<open>
  As stated, C4 fails: the frame \<^verbatim>\<open>5\<close> is valid JSON with no key at all, and it is
  answered with \<^verbatim>\<open>{"error": str(e)}\<close> for the \<^verbatim>\<open>TypeError\<close> of \<^verbatim>\<open>"setup" in 5\<close>.
\<close>

theorem unrecognised_shape_counterexample:
  "on_message (1::nat) (Inr (JInt 5)) init
   = \<lparr>connected_clients = {}, pdf_data = JNull, sent = [(1, ErrorStr TypeError)]\<rparr>"
  by (simp add: on_message_def handle_message_def on_exception_def send_def init_def)

text \<open>
  C4 (amended). For every frame that parses to a value on which both membership tests
  return false (an object with neither key, an array with neither string as an element,
  a string with neither as a substring), nothing is written and nothing changes. For
  every frame that parses to null, a boolean or a number, the first test raises
  \<^verbatim>\<open>TypeError\<close>: exactly one frame, \<^verbatim>\<open>{"error": str(e)}\<close>, is written to the
  connection and nothing else changes.
\<close>

theorem unrecognised_shape_ignored:
  "(py_in ''setup'' data = Inr False \<and> py_in ''realtime_input'' data = Inr False \<longrightarrow>
      on_message websocket (Inr data) w = w)
   \<and> (data \<in> {JNull, JBool b, JInt i, JFloat f} \<longrightarrow>
      on_message websocket (Inr data) w =
        w\<lparr>sent := sent w @ [(websocket, ErrorStr TypeError)]\<rparr>)"
  by (auto simp: on_message_def handle_message_def on_exception_def send_def)

theorem unrecognised_shape_ignored_witness:
  "py_in ''setup'' (JDict [(''ping'', JInt 1)]) = Inr False
   \<and> py_in ''realtime_input'' (JDict [(''ping'', JInt 1)]) = Inr False
   \<and> on_message (1::nat) (Inr (JDict [(''ping'', JInt 1)])) init = init
   \<and> on_message (1::nat) (Inr (JBool True)) init
     = \<lparr>connected_clients = {}, pdf_data = JNull, sent = [(1, ErrorStr TypeError)]\<rparr>"
proof -
  have tests: "py_in ''setup'' (JDict [(''ping'', JInt 1)]) = Inr False
      \<and> py_in ''realtime_input'' (JDict [(''ping'', JInt 1)]) = Inr False"
    by simp
  have scalar: "JBool True \<in> {JNull, JBool True, JInt 0, JFloat 0}"
    by simp
  note ignored =
    unrecognised_shape_ignored
      [of "JDict [(''ping'', JInt 1)]" "1::nat" init, THEN conjunct1, THEN mp, OF tests]
  note answered =
    unrecognised_shape_ignored
      [of "JBool True" "1::nat" init True 0 0, THEN conjunct2, THEN mp, OF scalar]
  have error: "on_message (1::nat) (Inr (JBool True)) init
     = \<lparr>connected_clients = {}, pdf_data = JNull, sent = [(1, ErrorStr TypeError)]\<rparr>"
    unfolding answered by (simp add: init_def)
  show ?thesis
    using tests ignored error by simp
qed

text \<open>
  C5. A frame whose top-level mapping has a \<^verbatim>\<open>setup\<close> key, whatever its value and whatever
  other keys it has, is answered with exactly \<^verbatim>\<open>{"status": "setup_complete"}\<close>: one frame
  is written to the connection, and neither the document nor the client set changes, so
  no media chunk of a \<^verbatim>\<open>realtime_input\<close> key beside it is dispatched.
\<close>

theorem setup_takes_priority:
  assumes "''setup'' \<in> fst ` set kvs"
  shows "on_message websocket (Inr (JDict kvs)) w = send websocket (Status ''setup_complete'') w"
  using assms by (simp add: on_message_def handle_message_def)

theorem setup_takes_priority_witness:
  "on_message (1::nat)
     (Inr (JDict [(''realtime_input'', JDict [(''media_chunks'',
        JList [JDict [(''mime_type'', JStr ''application/pdf''), (''data'', JStr ''QUJD'')]])]),
                  (''setup'', JNull)]))
     init
   = \<lparr>connected_clients = {}, pdf_data = JNull, sent = [(1, Status ''setup_complete'')]\<rparr>"
proof -
  have has_setup: "''setup'' \<in> fst ` set [(''realtime_input'', JDict [(''media_chunks'',
        JList [JDict [(''mime_type'', JStr ''application/pdf''), (''data'', JStr ''QUJD'')]])]),
                  (''setup'', JNull)]"
    by simp
  show ?thesis
    unfolding setup_takes_priority [OF has_setup, where websocket = "1::nat" and w = init]
    by (simp add: send_def init_def)
qed

text \<open>
  As stated, C6 fails: a frame of 100000 opening brackets is not valid JSON, and
  \<^verbatim>\<open>json.loads\<close> raises \<^verbatim>\<open>RecursionError\<close> on it, not \<^verbatim>\<open>JSONDecodeError\<close>. The
  reply is \<^verbatim>\<open>{"error": str(e)}\<close> of the second \<^verbatim>\<open>except\<close> clause, not
  \<^verbatim>\<open>{"error": "Invalid JSON format"}\<close>.
\<close>

theorem invalid_json_other_exception_counterexample:
  "on_message (1::nat) (Inl RecursionError) init
   = \<lparr>connected_clients = {}, pdf_data = JNull, sent = [(1, ErrorStr RecursionError)]\<rparr>
   \<and> ErrorStr RecursionError \<noteq> ErrorMessage ''Invalid JSON format''"
  by (simp add: on_message_def on_exception_def send_def init_def)

text \<open>
  C6 (amended). A frame on which \<^verbatim>\<open>json.loads\<close> raises \<^verbatim>\<open>JSONDecodeError\<close> is
  answered with exactly \<^verbatim>\<open>{"error": "Invalid JSON format"}\<close>; a frame on which it raises
  another exception \<open>e\<close> is answered with exactly \<^verbatim>\<open>{"error": str(e)}\<close>. Either way
  that one frame is written to the connection and nothing else changes, the loop goes on
  with the frames that follow, and the connection stays in the client set.
\<close>

theorem invalid_json_reply:
  "(e = JSONDecodeError \<longrightarrow>
      on_message websocket (Inl e) w =
        w\<lparr>sent := sent w @ [(websocket, ErrorMessage ''Invalid JSON format'')]\<rparr>)
   \<and> (e \<noteq> JSONDecodeError \<longrightarrow>
      on_message websocket (Inl e) w = w\<lparr>sent := sent w @ [(websocket, ErrorStr e)]\<rparr>)
   \<and> message_loop websocket (before @ Inl e # rest) w =
       message_loop websocket rest (on_message websocket (Inl e) (message_loop websocket before w))
   \<and> connected_clients (on_message websocket (Inl e) w) = connected_clients w"
  by (simp add: message_loop_append on_message_def on_exception_def send_def)

theorem invalid_json_reply_witness:
  "on_message (1::nat) (Inl JSONDecodeError) init
   = \<lparr>connected_clients = {}, pdf_data = JNull,
      sent = [(1, ErrorMessage ''Invalid JSON format'')]\<rparr>
   \<and> UnicodeDecodeError \<noteq> JSONDecodeError
   \<and> on_message (1::nat) (Inl UnicodeDecodeError) init
     = \<lparr>connected_clients = {}, pdf_data = JNull, sent = [(1, ErrorStr UnicodeDecodeError)]\<rparr>
   \<and> message_loop (1::nat) [Inl JSONDecodeError, Inr (JDict [(''setup'', JNull)])] init
     = \<lparr>connected_clients = {}, pdf_data = JNull,
        sent = [(1, ErrorMessage ''Invalid JSON format''), (1, Status ''setup_complete'')]\<rparr>"
proof -
  have other: "UnicodeDecodeError \<noteq> JSONDecodeError"
    by simp
  note invalid =
    invalid_json_reply [of JSONDecodeError "1::nat" init, THEN conjunct1, THEN mp, OF refl]
  note generic =
    invalid_json_reply
      [of UnicodeDecodeError "1::nat" init, THEN conjunct2, THEN conjunct1, THEN mp, OF other]
  note continues =
    invalid_json_reply
      [where e = JSONDecodeError and websocket = "1::nat" and before = "[]"
         and rest = "[Inr (JDict [(''setup'', JNull)])]" and w = init,
       THEN conjunct2, THEN conjunct2, THEN conjunct1]
  have first: "on_message (1::nat) (Inl JSONDecodeError) init
     = \<lparr>connected_clients = {}, pdf_data = JNull,
        sent = [(1, ErrorMessage ''Invalid JSON format'')]\<rparr>"
    unfolding invalid by (simp add: init_def)
  have second: "on_message (1::nat) (Inl UnicodeDecodeError) init
     = \<lparr>connected_clients = {}, pdf_data = JNull, sent = [(1, ErrorStr UnicodeDecodeError)]\<rparr>"
    unfolding generic by (simp add: init_def)
  have third: "message_loop (1::nat) [Inl JSONDecodeError, Inr (JDict [(''setup'', JNull)])] init
     = \<lparr>connected_clients = {}, pdf_data = JNull,
        sent = [(1, ErrorMessage ''Invalid JSON format''), (1, Status ''setup_complete'')]\<rparr>"
    using continues first
    by (simp add: on_message_def handle_message_def send_def)
  show ?thesis
    by (rule conjI [OF first conjI [OF other conjI [OF second third]]])
qed

subsection \<open>Chunks\<close>

text \<open>
  C7. After two successive document chunks the document is the \<^verbatim>\<open>data\<close> of the second,
  whatever the first carried: as two steps of the loop body, as two chunks of one frame,
  and as two frames of one connection.
\<close>

theorem last_write_wins:
  assumes "map_of kvs1 ''mime_type'' = Some (JStr ''application/pdf'')"
    and "map_of kvs2 ''mime_type'' = Some (JStr ''application/pdf'')"
    and "map_of kvs2 ''data'' = Some d2"
  shows "pdf_data (fst (process_chunk websocket (JDict kvs2)
                     (fst (process_chunk websocket (JDict kvs1) w)))) = d2
         \<and> pdf_data (on_message websocket
                      (Inr (realtime_input_frame [JDict kvs1, JDict kvs2])) w) = d2
         \<and> pdf_data (message_loop websocket
                      [Inr (realtime_input_frame [JDict kvs1]),
                       Inr (realtime_input_frame [JDict kvs2])] w) = d2"
  using assms by (simp add: on_message_def handle_message_frame process_chunk_dict)

theorem last_write_wins_witness:
  "pdf_data (message_loop (1::nat)
      [Inr (realtime_input_frame
              [JDict [(''mime_type'', JStr ''application/pdf''), (''data'', JStr ''QUJD'')]]),
       Inr (realtime_input_frame
              [JDict [(''mime_type'', JStr ''application/pdf''), (''data'', JStr ''REVG'')]])]
      init) = JStr ''REVG''"
  using last_write_wins
    [of "[(''mime_type'', JStr ''application/pdf''), (''data'', JStr ''QUJD'')]"
        "[(''mime_type'', JStr ''application/pdf''), (''data'', JStr ''REVG'')]"
        "JStr ''REVG''" "1::nat" init]
  by simp

text \<open>
  As stated, C8 fails: in the frame whose media chunks are \<^verbatim>\<open>5\<close> and an audio chunk,
  \<^verbatim>\<open>chunk.get\<close> raises \<^verbatim>\<open>AttributeError\<close> on \<^verbatim>\<open>5\<close>. The loop ends there, the audio
  chunk is never processed, and the only frame written is \<^verbatim>\<open>{"error": str(e)}\<close>, which
  is not the concatenation of the per-chunk replies.
\<close>

theorem chunks_in_order_counterexample:
  "sent (on_message (1::nat)
     (Inr (JDict [(''realtime_input'', JDict [(''media_chunks'', JList
        [JInt 5,
         JDict [(''mime_type'', JStr ''audio/pcm''), (''data'', JStr ''AAAA'')]])])]))
     init)
   = [(1, ErrorStr AttributeError)]
   \<and> concat (map (chunk_replies (1::nat))
        [JInt 5,
         JDict [(''mime_type'', JStr ''audio/pcm''), (''data'', JStr ''AAAA'')]])
     = [(1, TextAudio ''I received your audio input. This is a placeholder response.''
                      ''I received your audio input. This is a placeholder response.'')]"
  by (simp add: on_message_def handle_message_def process_chunk_def on_exception_def
      chunk_replies_def process_audio_def send_def init_def)

text \<open>
  C8 (amended). For every \<^verbatim>\<open>realtime_input\<close> frame with no \<^verbatim>\<open>setup\<close> key whose
  media chunks are an array (an absent \<^verbatim>\<open>media_chunks\<close> is the empty array), the
  chunks are processed in array
  order up to the first chunk that is not a mapping. The frames written are the replies
  of the chunks before that one, concatenated in order, followed by one
  \<^verbatim>\<open>{"error": str(e)}\<close> for its \<^verbatim>\<open>AttributeError\<close>; the chunks after it are not
  processed. When every chunk is a mapping, the frames written are the per-chunk replies
  of all chunks concatenated in order. Each chunk gives at most one reply, and at every
  split of the array the chunks before the split have had their whole effect, replies
  included, before the first chunk after it is processed, which happens only if none of
  them raised.
\<close>

theorem chunks_in_order:
  assumes "''setup'' \<notin> fst ` set outer"
    and "map_of outer ''realtime_input'' = Some (JDict inner)"
    and "py_get (JDict inner) ''media_chunks'' (JList []) = Inr (JList chunks)"
  shows "sent (on_message websocket (Inr (JDict outer)) w) =
           sent w @ concat (map (chunk_replies websocket) (takeWhile is_mapping chunks))
                  @ (if list_all is_mapping chunks then []
                     else [(websocket, ErrorStr AttributeError)])
         \<and> (\<forall>chunk \<in> set chunks. length (chunk_replies websocket chunk) \<le> 1)
         \<and> (\<forall>xs ys. chunks = xs @ ys \<longrightarrow>
               handle_message websocket (JDict outer) w =
                 (case chunk_loop websocket xs w of
                    (w', Some e) \<Rightarrow> (w', Some e)
                  | (w', None) \<Rightarrow> chunk_loop websocket ys w')
               \<and> sent (fst (chunk_loop websocket xs w)) =
                   sent w @ concat (map (chunk_replies websocket) (takeWhile is_mapping xs)))"
proof -
  have hm: "handle_message websocket (JDict outer) w = chunk_loop websocket chunks w"
    using assms by (rule handle_message_chunks)
  obtain w' r where loop: "chunk_loop websocket chunks w = (w', r)"
    by (cases "chunk_loop websocket chunks w")
  have out: "sent w' =
      sent w @ concat (map (chunk_replies websocket) (takeWhile is_mapping chunks))"
    and res: "r = (if list_all is_mapping chunks then None else Some AttributeError)"
    using chunk_loop_replies [of websocket chunks w] loop by simp_all
  have first: "sent (on_message websocket (Inr (JDict outer)) w) =
           sent w @ concat (map (chunk_replies websocket) (takeWhile is_mapping chunks))
                  @ (if list_all is_mapping chunks then []
                     else [(websocket, ErrorStr AttributeError)])"
    using hm loop out res by (simp add: on_message_def on_exception_def)
  have second: "\<forall>chunk \<in> set chunks. length (chunk_replies websocket chunk) \<le> 1"
    by (rule ballI) (rule chunk_replies_le_1)
  have third: "\<forall>xs ys. chunks = xs @ ys \<longrightarrow>
               handle_message websocket (JDict outer) w =
                 (case chunk_loop websocket xs w of
                    (w', Some e) \<Rightarrow> (w', Some e)
                  | (w', None) \<Rightarrow> chunk_loop websocket ys w')
               \<and> sent (fst (chunk_loop websocket xs w)) =
                   sent w @ concat (map (chunk_replies websocket) (takeWhile is_mapping xs))"
  proof (intro allI impI)
    fix xs ys
    assume split: "chunks = xs @ ys"
    show "handle_message websocket (JDict outer) w =
                 (case chunk_loop websocket xs w of
                    (w', Some e) \<Rightarrow> (w', Some e)
                  | (w', None) \<Rightarrow> chunk_loop websocket ys w')
               \<and> sent (fst (chunk_loop websocket xs w)) =
                   sent w @ concat (map (chunk_replies websocket) (takeWhile is_mapping xs))"
      using hm split chunk_loop_append [of websocket xs ys w]
        chunk_loop_replies [of websocket xs w] by simp
  qed
  show ?thesis
    by (rule conjI [OF first conjI [OF second third]])
qed

theorem chunks_in_order_witness:
  "sent (on_message (1::nat)
     (Inr (JDict [(''realtime_input'', JDict [(''media_chunks'', JList
        [JDict [(''mime_type'', JStr ''audio/pcm''), (''data'', JStr ''AAAA'')],
         JDict [(''mime_type'', JStr ''text/plain''), (''data'', JStr ''aGk='')],
         JDict [(''mime_type'', JStr ''application/pdf''), (''data'', JStr ''QUJD'')],
         JInt 5,
         JDict [(''mime_type'', JStr ''audio/pcm''), (''data'', JStr ''BBBB'')]])])]))
     init)
   = [(1, TextAudio ''I received your audio input. This is a placeholder response.''
                    ''I received your audio input. This is a placeholder response.''),
      (1, StatusMessage ''pdf_received'' ''PDF has been processed successfully''),
      (1, ErrorStr AttributeError)]"
proof -
  have no_setup: "''setup'' \<notin> fst ` set [(''realtime_input'', JDict [(''media_chunks'', JList
        [JDict [(''mime_type'', JStr ''audio/pcm''), (''data'', JStr ''AAAA'')],
         JDict [(''mime_type'', JStr ''text/plain''), (''data'', JStr ''aGk='')],
         JDict [(''mime_type'', JStr ''application/pdf''), (''data'', JStr ''QUJD'')],
         JInt 5,
         JDict [(''mime_type'', JStr ''audio/pcm''), (''data'', JStr ''BBBB'')]])])]"
    by simp
  have input: "map_of [(''realtime_input'', JDict [(''media_chunks'', JList
        [JDict [(''mime_type'', JStr ''audio/pcm''), (''data'', JStr ''AAAA'')],
         JDict [(''mime_type'', JStr ''text/plain''), (''data'', JStr ''aGk='')],
         JDict [(''mime_type'', JStr ''application/pdf''), (''data'', JStr ''QUJD'')],
         JInt 5,
         JDict [(''mime_type'', JStr ''audio/pcm''), (''data'', JStr ''BBBB'')]])])]
      ''realtime_input''
      = Some (JDict [(''media_chunks'', JList
        [JDict [(''mime_type'', JStr ''audio/pcm''), (''data'', JStr ''AAAA'')],
         JDict [(''mime_type'', JStr ''text/plain''), (''data'', JStr ''aGk='')],
         JDict [(''mime_type'', JStr ''application/pdf''), (''data'', JStr ''QUJD'')],
         JInt 5,
         JDict [(''mime_type'', JStr ''audio/pcm''), (''data'', JStr ''BBBB'')]])])"
    by simp
  have chunks: "py_get (JDict [(''media_chunks'', JList
        [JDict [(''mime_type'', JStr ''audio/pcm''), (''data'', JStr ''AAAA'')],
         JDict [(''mime_type'', JStr ''text/plain''), (''data'', JStr ''aGk='')],
         JDict [(''mime_type'', JStr ''application/pdf''), (''data'', JStr ''QUJD'')],
         JInt 5,
         JDict [(''mime_type'', JStr ''audio/pcm''), (''data'', JStr ''BBBB'')]])])
      ''media_chunks'' (JList [])
      = Inr (JList
        [JDict [(''mime_type'', JStr ''audio/pcm''), (''data'', JStr ''AAAA'')],
         JDict [(''mime_type'', JStr ''text/plain''), (''data'', JStr ''aGk='')],
         JDict [(''mime_type'', JStr ''application/pdf''), (''data'', JStr ''QUJD'')],
         JInt 5,
         JDict [(''mime_type'', JStr ''audio/pcm''), (''data'', JStr ''BBBB'')]])"
    by simp
  note replies =
    chunks_in_order [OF no_setup input chunks, where websocket = "1::nat" and w = init,
      THEN conjunct1]
  show ?thesis
    unfolding replies
    by (simp add: chunk_replies_def process_chunk_dict process_audio_def init_def send_def)
qed



text \<open>
  As stated, C10 fails for the \<^verbatim>\<open>data\<close> key: the chunk \<^verbatim>\<open>{"mime_type": "application/pdf"}\<close>
  lacks it, and processing it overwrites the document \<^verbatim>\<open>QUJD\<close> with \<^verbatim>\<open>None\<close> and writes
  the acknowledgement.
\<close>

theorem missing_data_counterexample:
  "''data'' \<notin> fst ` set [(''mime_type'', JStr ''application/pdf'')]
   \<and> process_chunk (1::nat) (JDict [(''mime_type'', JStr ''application/pdf'')])
       \<lparr>connected_clients = {1}, pdf_data = JStr ''QUJD'', sent = []\<rparr>
     = (\<lparr>connected_clients = {1}, pdf_data = JNull,
         sent = [(1, StatusMessage ''pdf_received'' ''PDF has been processed successfully'')]\<rparr>,
        None)"
  by (simp add: process_chunk_def send_def)

text \<open>
  C10 (amended). A chunk (a mapping) without a \<^verbatim>\<open>mime_type\<close> key raises nothing, writes
  nothing and changes nothing. A chunk without a \<^verbatim>\<open>data\<close> key raises nothing either,
  and is handled exactly as the same chunk with \<^verbatim>\<open>"data": null\<close>: whether it is skipped
  depends on its \<^verbatim>\<open>mime_type\<close> alone.
\<close>

theorem missing_key_read_as_none:
  "(''mime_type'' \<notin> fst ` set kvs \<longrightarrow> process_chunk websocket (JDict kvs) w = (w, None))
   \<and> (''data'' \<notin> fst ` set kvs \<longrightarrow>
        snd (process_chunk websocket (JDict kvs) w) = None
        \<and> process_chunk websocket (JDict kvs) w =
            process_chunk websocket (JDict ((''data'', JNull) # kvs)) w)"
  by (simp add: process_chunk_dict map_of_no_key Let_def)

theorem missing_key_read_as_none_witness:
  "''mime_type'' \<notin> fst ` set [(''data'', JStr ''QUJD'')]
   \<and> process_chunk (1::nat) (JDict [(''data'', JStr ''QUJD'')]) init = (init, None)
   \<and> ''data'' \<notin> fst ` set [(''mime_type'', JStr ''audio/pcm'')]
   \<and> snd (process_chunk (1::nat) (JDict [(''mime_type'', JStr ''audio/pcm'')]) init) = None"
proof -
  have no_mime: "''mime_type'' \<notin> fst ` set [(''data'', JStr ''QUJD'')]"
    by simp
  have no_data: "''data'' \<notin> fst ` set [(''mime_type'', JStr ''audio/pcm'')]"
    by simp
  note skipped =
    missing_key_read_as_none [of "[(''data'', JStr ''QUJD'')]" "1::nat" init,
      THEN conjunct1, THEN mp, OF no_mime]
  note returns =
    missing_key_read_as_none [of "[(''mime_type'', JStr ''audio/pcm'')]" "1::nat" init,
      THEN conjunct2, THEN mp, OF no_data, THEN conjunct1]
  show ?thesis
    by (rule conjI [OF no_mime conjI [OF skipped conjI [OF no_data returns]]])
qed

end
